theory Spec2Isabelle
  imports Complex_Main
begin

section \<open>Ohm's law calculator (physics/ohms\_law.py)\<close>

text \<open>
  The module holds one function, \<^verbatim>\<open>ohms_law(voltage, current, resistance)\<close>.
  Each parameter is a Python number or \<^verbatim>\<open>None\<close>; the signature gives no default
  values, so a parameter that is "not provided" reaches the body only as an explicit
  \<^verbatim>\<open>None\<close>. A parameter is modelled as \<open>real option\<close>: Python's ints and floats
  are read as exact real numbers (no rounding, no infinities, no NaN), and
  \<open>None\<close> is Python's \<^verbatim>\<open>None\<close>.

  Exceptions are values of the type \<open>error\<close>; a call yields \<open>Inl e\<close> when it raises
  \<open>e\<close> and \<open>Inr x\<close> when it returns \<open>x\<close>.
\<close>

subsection \<open>Exceptions and returned values\<close>

datatype error = ValueError string | TypeError | ZeroDivisionError

text \<open>
  The function returns either a dictionary literal with one key or, in its last branch,
  \<^verbatim>\<open>None\<close>.
\<close>

datatype retval = Dict "string \<rightharpoonup> real" | NoneValue

text \<open>
  The specification's names for the errors, as the code raises them: both validation
  errors are Python \<^verbatim>\<open>ValueError\<close>s, told apart by their message; a division by
  zero is Python's own \<^verbatim>\<open>ZeroDivisionError\<close>.
\<close>

datatype field = Current | Voltage | Resistance

definition InvalidArgumentCount :: error where
  "InvalidArgumentCount =
     ValueError ''Exactly two parameters (voltage, current, or resistance) must be provided.''"

fun NegativeValue :: "field \<Rightarrow> error" where
  "NegativeValue Current = ValueError ''Current cannot be negative.''"
| "NegativeValue Voltage = ValueError ''Voltage cannot be negative.''"
| "NegativeValue Resistance = ValueError ''Resistance cannot be negative.''"

definition DivisionByZero :: error where
  "DivisionByZero = ZeroDivisionError"

subsection \<open>Python's operators on optional numbers\<close>

text \<open>
  \<^verbatim>\<open>x < 0\<close>: Python 3 orders numbers, and raises \<^verbatim>\<open>TypeError\<close> when \<^verbatim>\<open>x\<close> is
  \<^verbatim>\<open>None\<close> ("'<' not supported between instances of 'NoneType' and 'int'").
\<close>

definition py_lt_zero :: "real option \<Rightarrow> error + bool" where
  "py_lt_zero x = (case x of None \<Rightarrow> Inl TypeError | Some a \<Rightarrow> Inr (a < 0))"

text \<open>
  \<^verbatim>\<open>a / b\<close>: true division; \<^verbatim>\<open>TypeError\<close> on \<^verbatim>\<open>None\<close>, \<^verbatim>\<open>ZeroDivisionError\<close>
  when the divisor is zero (for ints and floats alike). The quotient is the exact
  real one: the rounding of a float result (\<^verbatim>\<open>1 / 3\<close>) and the
  \<^verbatim>\<open>OverflowError\<close> of an int quotient beyond the float range
  (\<^verbatim>\<open>10**400 / 3\<close>) are left out. No outcome of \<open>ohms_law\<close> depends on it, since
  no call gets as far as a division.
\<close>

definition py_truediv :: "real option \<Rightarrow> real option \<Rightarrow> error + real" where
  "py_truediv x y =
     (case (x, y) of
        (Some a, Some b) \<Rightarrow> if b = 0 then Inl ZeroDivisionError else Inr (a / b)
      | _ \<Rightarrow> Inl TypeError)"

text \<open>
  \<^verbatim>\<open>a * b\<close>: \<^verbatim>\<open>TypeError\<close> on \<^verbatim>\<open>None\<close>. The product is the exact real one,
  with the rounding of floats and the \<^verbatim>\<open>OverflowError\<close> of an int too large for a
  float left out, as for the quotient.
\<close>

definition py_mul :: "real option \<Rightarrow> real option \<Rightarrow> error + real" where
  "py_mul x y =
     (case (x, y) of
        (Some a, Some b) \<Rightarrow> Inr (a * b)
      | _ \<Rightarrow> Inl TypeError)"

subsection \<open>The function, in the three phases its comments name\<close>

text \<open>
  Line 54: \<^verbatim>\<open>sum(param is not None for param in [voltage, current, resistance])\<close>,
  the number of parameters that are not \<^verbatim>\<open>None\<close>.
\<close>

definition count_provided :: "real option list \<Rightarrow> nat" where
  "count_provided params = sum_list (map (\<lambda>param. if param \<noteq> None then 1 else 0) params)"

text \<open>Lines 54 to 57: "Check that exactly two parameters are provided".\<close>

definition check_count :: "real option \<Rightarrow> real option \<Rightarrow> real option \<Rightarrow> error + unit" where
  "check_count voltage current resistance =
     (if count_provided [voltage, current, resistance] \<noteq> 2
      then Inl InvalidArgumentCount
      else Inr ())"

text \<open>
  Lines 60 to 65: "Check for negative values". The three comparisons are made on the
  parameters as they are, in the order current, voltage, resistance, with no test for
  \<^verbatim>\<open>None\<close> before them.
\<close>

definition check_negative :: "real option \<Rightarrow> real option \<Rightarrow> real option \<Rightarrow> error + unit" where
  "check_negative voltage current resistance =
     (case py_lt_zero current of
        Inl e \<Rightarrow> Inl e
      | Inr c \<Rightarrow>
          if c then Inl (ValueError ''Current cannot be negative.'')
          else (case py_lt_zero voltage of
                  Inl e \<Rightarrow> Inl e
                | Inr v \<Rightarrow>
                    if v then Inl (ValueError ''Voltage cannot be negative.'')
                    else (case py_lt_zero resistance of
                            Inl e \<Rightarrow> Inl e
                          | Inr r \<Rightarrow>
                              if r then Inl (ValueError ''Resistance cannot be negative.'')
                              else Inr ())))"

text \<open>Lines 68 to 79: "Calculate the missing parameter".\<close>

definition calculate :: "real option \<Rightarrow> real option \<Rightarrow> real option \<Rightarrow> error + retval" where
  "calculate voltage current resistance =
     (if current = None then
        (case py_truediv voltage resistance of
           Inl e \<Rightarrow> Inl e
         | Inr c \<Rightarrow> Inr (Dict [''current'' \<mapsto> c]))
      else if voltage = None then
        (case py_mul current resistance of
           Inl e \<Rightarrow> Inl e
         | Inr v \<Rightarrow> Inr (Dict [''voltage'' \<mapsto> v]))
      else if resistance = None then
        (case py_truediv voltage current of
           Inl e \<Rightarrow> Inl e
         | Inr r \<Rightarrow> Inr (Dict [''resistance'' \<mapsto> r]))
      else Inr NoneValue)"

text \<open>The whole body: the first phase that raises ends the call.\<close>

definition ohms_law :: "real option \<Rightarrow> real option \<Rightarrow> real option \<Rightarrow> error + retval" where
  "ohms_law voltage current resistance =
     (case check_count voltage current resistance of
        Inl e \<Rightarrow> Inl e
      | Inr _ \<Rightarrow>
          (case check_negative voltage current resistance of
             Inl e \<Rightarrow> Inl e
           | Inr _ \<Rightarrow> calculate voltage current resistance))"

subsection \<open>The body as a state transformer\<close>

text \<open>
  What a call can read and write besides its arguments. A call runs in a state made of
  its own frame, which holds the three parameter names \<^verbatim>\<open>voltage\<close>, \<^verbatim>\<open>current\<close>
  and \<^verbatim>\<open>resistance\<close> and is created by the call and dropped at its end, and of the
  module's global names, which outlive the call. (The builtins \<^verbatim>\<open>sum\<close> and
  \<^verbatim>\<open>ValueError\<close> are taken as fixed.)
\<close>

record pystate =
  local_voltage :: "real option"
  local_current :: "real option"
  local_resistance :: "real option"
  globals :: "string \<rightharpoonup> real option"

text \<open>
  A statement maps a state to a new state and says how control leaves it: on to the
  next statement, by a \<^verbatim>\<open>raise\<close>, or by a \<^verbatim>\<open>return\<close>.
\<close>

datatype flow = Continue | Raised error | Returned retval

type_synonym stmt = "pystate \<Rightarrow> flow \<times> pystate"



definition return_stmt :: "retval \<Rightarrow> stmt" where
  "return_stmt x s = (Returned x, s)"

text \<open>\<^verbatim>\<open>p; q\<close>: \<open>q\<close> runs only when control falls out of \<open>p\<close>.\<close>

definition seq :: "stmt \<Rightarrow> stmt \<Rightarrow> stmt" where
  "seq p q s = (case p s of (Continue, s') \<Rightarrow> q s' | (out, s') \<Rightarrow> (out, s'))"

text \<open>\<^verbatim>\<open>if c: p else: q\<close>, where evaluating the condition \<open>c\<close> may raise.\<close>

definition if_stmt :: "(pystate \<Rightarrow> error + bool) \<Rightarrow> stmt \<Rightarrow> stmt \<Rightarrow> stmt" where
  "if_stmt c p q s =
     (case c s of Inl e \<Rightarrow> (Raised e, s) | Inr b \<Rightarrow> if b then p s else q s)"

text \<open>Evaluating the right-hand side of an assignment, which may raise.\<close>

definition eval_then :: "(pystate \<Rightarrow> error + real) \<Rightarrow> (real \<Rightarrow> stmt) \<Rightarrow> stmt" where
  "eval_then rhs k s = (case rhs s of Inl e \<Rightarrow> (Raised e, s) | Inr x \<Rightarrow> k x s)"

text \<open>The assignments of lines 69, 72 and 75 rebind a name of the frame.\<close>

definition assign_current :: "real \<Rightarrow> stmt" where
  "assign_current x s = (Continue, s\<lparr>local_current := Some x\<rparr>)"

definition assign_voltage :: "real \<Rightarrow> stmt" where
  "assign_voltage x s = (Continue, s\<lparr>local_voltage := Some x\<rparr>)"

definition assign_resistance :: "real \<Rightarrow> stmt" where
  "assign_resistance x s = (Continue, s\<lparr>local_resistance := Some x\<rparr>)"

text \<open>
  Lines 68 to 79, the \<^verbatim>\<open>if\<close> chain. In each computing branch the dictionary is
  built from the name bound on the line before, that is, from the value just computed.
\<close>

definition calculate_stmt :: stmt where
  "calculate_stmt =
     if_stmt (\<lambda>s. Inr (local_current s = None))
       (eval_then (\<lambda>s. py_truediv (local_voltage s) (local_resistance s))
          (\<lambda>x. seq (assign_current x) (return_stmt (Dict [''current'' \<mapsto> x]))))
    (if_stmt (\<lambda>s. Inr (local_voltage s = None))
       (eval_then (\<lambda>s. py_mul (local_current s) (local_resistance s))
          (\<lambda>x. seq (assign_voltage x) (return_stmt (Dict [''voltage'' \<mapsto> x]))))
    (if_stmt (\<lambda>s. Inr (local_resistance s = None))
       (eval_then (\<lambda>s. py_truediv (local_voltage s) (local_current s))
          (\<lambda>x. seq (assign_resistance x) (return_stmt (Dict [''resistance'' \<mapsto> x]))))
       (return_stmt NoneValue)))"




section \<open>Basic facts\<close>

lemma count_provided_three:
  "count_provided [v, i, r] =
     (if v \<noteq> None then 1 else 0) + (if i \<noteq> None then 1 else 0) + (if r \<noteq> None then 1 else 0)"
  by (simp add: count_provided_def)

lemma count_provided_two_iff:
  "count_provided [v, i, r] = 2 \<longleftrightarrow>
     (v = None \<and> i \<noteq> None \<and> r \<noteq> None) \<or>
     (v \<noteq> None \<and> i = None \<and> r \<noteq> None) \<or>
     (v \<noteq> None \<and> i \<noteq> None \<and> r = None)"
  by (simp add: count_provided_three)

lemma ohms_law_bad_count:
  "count_provided [v, i, r] \<noteq> 2 \<Longrightarrow> ohms_law v i r = Inl InvalidArgumentCount"
  by (simp add: ohms_law_def check_count_def)

text \<open>
  What the call does when exactly two parameters are provided, one case for each absent
  parameter. The comparison of the absent parameter with zero raises \<^verbatim>\<open>TypeError\<close>,
  unless a comparison made before it has already raised.
\<close>

lemma ohms_law_current_absent:
  "ohms_law (Some v) None (Some r) = Inl TypeError"
  by (simp add: ohms_law_def check_count_def count_provided_def check_negative_def
      py_lt_zero_def)

lemma ohms_law_voltage_absent:
  "ohms_law None (Some i) (Some r) =
     (if i < 0 then Inl (NegativeValue Current) else Inl TypeError)"
  by (simp add: ohms_law_def check_count_def count_provided_def check_negative_def
      py_lt_zero_def)

lemma ohms_law_resistance_absent:
  "ohms_law (Some v) (Some i) None =
     (if i < 0 then Inl (NegativeValue Current)
      else if v < 0 then Inl (NegativeValue Voltage)
      else Inl TypeError)"
  by (simp add: ohms_law_def check_count_def count_provided_def check_negative_def
      py_lt_zero_def)

text \<open>Hence no call returns: every input ends in an exception.\<close>

lemma ohms_law_raises: "\<exists>e. ohms_law v i r = Inl e"
proof (cases "count_provided [v, i, r] = 2")
  case False
  then show ?thesis by (simp add: ohms_law_bad_count)
next
  case True
  then consider
      (V) a b where "v = None" "i = Some a" "r = Some b"
    | (I) a b where "v = Some a" "i = None" "r = Some b"
    | (R) a b where "v = Some a" "i = Some b" "r = None"
    by (auto simp: count_provided_two_iff)
  then show ?thesis
  proof cases
    case V
    then show ?thesis by (simp add: ohms_law_voltage_absent)
  next
    case I
    then show ?thesis by (simp add: ohms_law_current_absent)
  next
    case R
    then show ?thesis by (simp add: ohms_law_resistance_absent)
  qed
qed

text \<open>
  The third phase taken by itself, on inputs with exactly two parameters provided:
  it computes the absent parameter, and raises on a zero divisor.
\<close>

lemma calculate_current_absent:
  "calculate (Some v) None (Some r) =
     (if r = 0 then Inl ZeroDivisionError else Inr (Dict [''current'' \<mapsto> v / r]))"
  by (simp add: calculate_def py_truediv_def)

lemma calculate_voltage_absent:
  "calculate None (Some i) (Some r) = Inr (Dict [''voltage'' \<mapsto> i * r])"
  by (simp add: calculate_def py_mul_def)

lemma calculate_resistance_absent:
  "calculate (Some v) (Some i) None =
     (if i = 0 then Inl ZeroDivisionError else Inr (Dict [''resistance'' \<mapsto> v / i]))"
  by (simp add: calculate_def py_truediv_def)


text \<open>The outcomes a call can have at all.\<close>

lemma ohms_law_outcomes:
  "ohms_law v i r \<in>
     {Inl InvalidArgumentCount, Inl TypeError,
      Inl (NegativeValue Current), Inl (NegativeValue Voltage)}"
proof (cases "count_provided [v, i, r] = 2")
  case False
  then show ?thesis by (simp add: ohms_law_bad_count)
next
  case True
  then consider
      (V) a b where "v = None" "i = Some a" "r = Some b"
    | (I) a b where "v = Some a" "i = None" "r = Some b"
    | (R) a b where "v = Some a" "i = Some b" "r = None"
    by (auto simp: count_provided_two_iff)
  then show ?thesis
  proof cases
    case V
    then show ?thesis by (simp add: ohms_law_voltage_absent)
  next
    case I
    then show ?thesis by (simp add: ohms_law_current_absent)
  next
    case R
    then show ?thesis by (simp add: ohms_law_resistance_absent)
  qed
qed

lemma ohms_law_never_ZeroDivisionError: "ohms_law v i r \<noteq> Inl ZeroDivisionError"
  using ohms_law_outcomes [of v i r] by (auto simp: InvalidArgumentCount_def)

lemma ohms_law_never_negative_resistance:
  "ohms_law v i r \<noteq> Inl (NegativeValue Resistance)"
  using ohms_law_outcomes [of v i r] by (auto simp: InvalidArgumentCount_def)

text \<open>
  The \<^verbatim>\<open>if\<close> chain as a statement agrees with \<open>calculate\<close> and writes to the
  frame only.
\<close>

lemma calculate_stmt_eq:
  "fst (calculate_stmt s) =
     (case calculate (local_voltage s) (local_current s) (local_resistance s) of
        Inl e \<Rightarrow> Raised e | Inr x \<Rightarrow> Returned x) \<and>
   globals (snd (calculate_stmt s)) = globals s"
  by (simp add: calculate_stmt_def calculate_def if_stmt_def eval_then_def seq_def
      assign_current_def assign_voltage_def assign_resistance_def return_stmt_def
      split: sum.splits)



section \<open>The claims\<close>

text \<open>
  C3. When the number of provided (non-\<^verbatim>\<open>None\<close>) parameters is not exactly two
  (none, one or all three), the call fails with the argument-count error.
\<close>

theorem C3_invalid_argument_count:
  "count_provided [voltage, current, resistance] \<noteq> 2 \<Longrightarrow>
     ohms_law voltage current resistance = Inl InvalidArgumentCount"
  by (rule ohms_law_bad_count)

theorem C3_invalid_argument_count_witness:
  "count_provided [Some 9, Some 3, Some 3] \<noteq> 2 \<and>
   ohms_law (Some 9) (Some 3) (Some 3) = Inl InvalidArgumentCount \<and>
   count_provided [Some 9, None, None] \<noteq> 2 \<and>
   ohms_law (Some 9) None None = Inl InvalidArgumentCount"
proof -
  have three: "count_provided [Some 9, Some 3, Some 3] \<noteq> 2"
    by (simp add: count_provided_def)
  have one: "count_provided [Some 9, None, None] \<noteq> 2"
    by (simp add: count_provided_def)
  show ?thesis
    using three one C3_invalid_argument_count [OF three] C3_invalid_argument_count [OF one]
    by simp
qed

text \<open>
  C6. The argument-count check comes first: an input that violates both the count and
  the sign condition (a provided parameter is negative) fails with the argument-count
  error, never with a negative-value error.
\<close>

theorem C6_count_check_first:
  "count_provided [voltage, current, resistance] \<noteq> 2 \<Longrightarrow>
   (\<exists>a. Some a \<in> {voltage, current, resistance} \<and> a < 0) \<Longrightarrow>
     ohms_law voltage current resistance = Inl InvalidArgumentCount \<and>
     ohms_law voltage current resistance \<noteq> Inl (NegativeValue f)"
proof -
  assume "count_provided [voltage, current, resistance] \<noteq> 2"
  then have "ohms_law voltage current resistance = Inl InvalidArgumentCount"
    by (rule ohms_law_bad_count)
  moreover have "InvalidArgumentCount \<noteq> NegativeValue f"
    by (cases f) (simp_all add: InvalidArgumentCount_def)
  ultimately show ?thesis by simp
qed

theorem C6_count_check_first_witness:
  "count_provided [Some 9, Some (-3), Some 3] \<noteq> 2 \<and>
   (\<exists>a. Some a \<in> {Some 9, Some (-3), Some (3::real)} \<and> a < 0) \<and>
   ohms_law (Some 9) (Some (-3)) (Some 3) = Inl InvalidArgumentCount \<and>
   ohms_law (Some 9) (Some (-3)) (Some 3) \<noteq> Inl (NegativeValue Current)"
proof -
  have n: "count_provided [Some 9, Some (-3), Some 3] \<noteq> 2"
    by (simp add: count_provided_def)
  have neg: "\<exists>a. Some a \<in> {Some 9, Some (-3), Some (3::real)} \<and> a < 0"
    by (rule exI [of _ "-3"]) simp
  show ?thesis
    using n neg C6_count_check_first [OF n neg, of Current] by blast
qed

text \<open>
  C1. With exactly two parameters provided and none of them negative, the call is to
  return a dictionary with one entry, the absent parameter computed by V = I R. The
  code does not: on the three examples of its own docstring, \<^verbatim>\<open>current=2, resistance=4\<close>,
  \<^verbatim>\<open>voltage=12, current=3\<close> and \<^verbatim>\<open>voltage=9, resistance=3\<close>, the comparison of the
  absent parameter with zero raises \<^verbatim>\<open>TypeError\<close>. The calculation that would have
  followed gives the documented values.
\<close>

theorem C1_docstring_examples_raise:
  "ohms_law None (Some 2) (Some 4) = Inl TypeError \<and>
   ohms_law (Some 12) (Some 3) None = Inl TypeError \<and>
   ohms_law (Some 9) None (Some 3) = Inl TypeError \<and>
   calculate None (Some 2) (Some 4) = Inr (Dict [''voltage'' \<mapsto> 8]) \<and>
   calculate (Some 12) (Some 3) None = Inr (Dict [''resistance'' \<mapsto> 4]) \<and>
   calculate (Some 9) None (Some 3) = Inr (Dict [''current'' \<mapsto> 3])"
  by (simp add: ohms_law_voltage_absent ohms_law_resistance_absent ohms_law_current_absent
      calculate_voltage_absent calculate_resistance_absent calculate_current_absent)

text \<open>
  C2. The absent parameter is to stay out of the sign check. In the code it does not:
  whenever exactly two parameters are provided and neither is negative, the sign check
  compares the absent parameter with zero, and that comparison is what ends the call,
  with \<^verbatim>\<open>TypeError\<close>.
\<close>

theorem C2_absent_parameter_is_compared:
  "count_provided [voltage, current, resistance] = 2 \<Longrightarrow>
   (\<forall>a. Some a \<in> {voltage, current, resistance} \<longrightarrow> 0 \<le> a) \<Longrightarrow>
     py_lt_zero None = Inl TypeError \<and>
     check_negative voltage current resistance = Inl TypeError \<and>
     ohms_law voltage current resistance = Inl TypeError"
proof -
  assume two: "count_provided [voltage, current, resistance] = 2"
    and nonneg: "\<forall>a. Some a \<in> {voltage, current, resistance} \<longrightarrow> 0 \<le> a"
  from two consider
      (V) a b where "voltage = None" "current = Some a" "resistance = Some b"
    | (I) a b where "voltage = Some a" "current = None" "resistance = Some b"
    | (R) a b where "voltage = Some a" "current = Some b" "resistance = None"
    by (auto simp: count_provided_two_iff)
  then have "check_negative voltage current resistance = Inl TypeError"
  proof cases
    case V
    with nonneg have "0 \<le> a" by simp
    with V show ?thesis by (simp add: check_negative_def py_lt_zero_def)
  next
    case I
    then show ?thesis by (simp add: check_negative_def py_lt_zero_def)
  next
    case R
    with nonneg have "0 \<le> a" "0 \<le> b" by simp_all
    with R show ?thesis by (simp add: check_negative_def py_lt_zero_def)
  qed
  with two show ?thesis
    by (simp add: ohms_law_def check_count_def py_lt_zero_def)
qed

theorem C2_absent_parameter_is_compared_witness:
  "count_provided [Some 10, None, Some 5] = 2 \<and>
   check_negative (Some 10) None (Some 5) = Inl TypeError \<and>
   ohms_law (Some 10) None (Some 5) = Inl TypeError"
proof -
  have two: "count_provided [Some 10, None, Some 5] = 2"
    by (simp add: count_provided_def)
  have nonneg: "\<forall>a. Some a \<in> {Some 10, None, Some (5::real)} \<longrightarrow> 0 \<le> a"
    by auto
  show ?thesis
    using two C2_absent_parameter_is_compared [OF two nonneg] by simp
qed

text \<open>
  C4. With exactly two parameters provided, a negative one is to be reported by the
  negative-value error of its field, the fields tried in the order current, voltage,
  resistance. The code does so for \<^verbatim>\<open>voltage=-5, current=2\<close>, but not in general: a
  negative voltage or resistance is not reported when a parameter compared before it
  is absent, because that comparison raises \<^verbatim>\<open>TypeError\<close> first.
\<close>

theorem C4_negative_value_masked:
  "ohms_law (Some (-5)) None (Some 3) = Inl TypeError \<and>
   ohms_law None (Some 2) (Some (-3)) = Inl TypeError \<and>
   ohms_law (Some 7) None (Some (-3)) = Inl TypeError \<and>
   ohms_law (Some (-5)) (Some 2) None = Inl (NegativeValue Voltage)"
  by (simp add: ohms_law_voltage_absent ohms_law_resistance_absent ohms_law_current_absent)

text \<open>
  C5. A zero divisor is to surface as the division-by-zero error, and the product
  \<^verbatim>\<open>current=2, resistance=0\<close> is to return a voltage of 0. The divisions of the code
  would raise \<^verbatim>\<open>ZeroDivisionError\<close> and its product would give 0, but no call gets
  that far: all three inputs end in the \<^verbatim>\<open>TypeError\<close> of the sign check.
\<close>

theorem C5_zero_divisor_not_reached:
  "ohms_law (Some 5) (Some 0) None = Inl TypeError \<and>
   ohms_law (Some 5) None (Some 0) = Inl TypeError \<and>
   ohms_law None (Some 2) (Some 0) = Inl TypeError \<and>
   calculate (Some 5) (Some 0) None = Inl DivisionByZero \<and>
   calculate (Some 5) None (Some 0) = Inl DivisionByZero \<and>
   calculate None (Some 2) (Some 0) = Inr (Dict [''voltage'' \<mapsto> 0])"
  by (simp add: ohms_law_voltage_absent ohms_law_resistance_absent ohms_law_current_absent
      calculate_voltage_absent calculate_resistance_absent calculate_current_absent
      DivisionByZero_def)

text \<open>
  C7. Round trip: for a voltage \<open>v \<ge> 0\<close> and a current \<open>i > 0\<close>, the call with
  current \<open>i\<close> and resistance \<open>v / i\<close> is to give back the voltage \<open>v\<close>. Over exact
  arithmetic the product of line 72 is \<open>v\<close> indeed, but the call never reaches it: it
  ends in the \<^verbatim>\<open>TypeError\<close> of the comparison \<^verbatim>\<open>voltage < 0\<close>.
\<close>

theorem C7_round_trip_raises:
  "0 \<le> v \<Longrightarrow> 0 < i \<Longrightarrow>
     ohms_law None (Some i) (Some (v / i)) = Inl TypeError \<and>
     calculate None (Some i) (Some (v / i)) = Inr (Dict [''voltage'' \<mapsto> v])"
  by (simp add: ohms_law_voltage_absent calculate_voltage_absent)

theorem C7_round_trip_raises_witness:
  "(0::real) \<le> 6 \<and> (0::real) < 3 \<and>
   ohms_law None (Some 3) (Some (6 / 3)) = Inl TypeError \<and>
   calculate None (Some 3) (Some (6 / 3)) = Inr (Dict [''voltage'' \<mapsto> 6])"
proof -
  have v: "(0::real) \<le> 6" and i: "(0::real) < 3" by simp_all
  show ?thesis
    using v i C7_round_trip_raises [OF v i] by blast
qed



text \<open>
  C9. Each violated precondition is to surface as its own, distinguishable error. The
  three errors are distinct values, and distinct from \<^verbatim>\<open>TypeError\<close>; but a negative
  voltage (with the current absent) and a zero divisor both surface as that same
  \<^verbatim>\<open>TypeError\<close>, which is none of the three and is also the outcome of a call
  that violates nothing; and the division-by-zero error is the outcome of no call.
\<close>

theorem C9_errors_not_distinguished:
  "ohms_law (Some (-1)) None (Some 2) = Inl TypeError \<and>
   ohms_law (Some 1) (Some 0) None = Inl TypeError \<and>
   ohms_law (Some 1) (Some 2) None = Inl TypeError \<and>
   ohms_law (Some (-1)) None (Some 2) = ohms_law (Some 1) (Some 0) None \<and>
   TypeError \<notin> {InvalidArgumentCount, NegativeValue Current, NegativeValue Voltage,
                NegativeValue Resistance, DivisionByZero} \<and>
   ohms_law voltage current resistance \<noteq> Inl DivisionByZero"
  using ohms_law_never_ZeroDivisionError [of voltage current resistance]
  by (simp add: ohms_law_current_absent ohms_law_resistance_absent
      InvalidArgumentCount_def DivisionByZero_def)

text \<open>
  C10. On every input that passes the argument-count check exactly one parameter is
  absent, so exactly one computing branch of lines 68 to 76 is to be taken and the call
  is to return a dictionary of one key, never \<^verbatim>\<open>None\<close>. The code takes none of the
  branches: on every such input the call ends in an exception of the sign check of
  lines 60 to 65, before line 68 is reached, and nothing is returned.
\<close>

theorem C10_no_branch_taken:
  "count_provided [voltage, current, resistance] = 2 \<Longrightarrow>
     length (filter (\<lambda>param. param = None) [voltage, current, resistance]) = 1 \<and>
     (\<exists>e. check_negative voltage current resistance = Inl e \<and>
          ohms_law voltage current resistance = Inl e)"
proof -
  assume two: "count_provided [voltage, current, resistance] = 2"
  then consider
      (V) a b where "voltage = None" "current = Some a" "resistance = Some b"
    | (I) a b where "voltage = Some a" "current = None" "resistance = Some b"
    | (R) a b where "voltage = Some a" "current = Some b" "resistance = None"
    by (auto simp: count_provided_two_iff)
  then have
    "length (filter (\<lambda>param. param = None) [voltage, current, resistance]) = 1 \<and>
     (\<exists>e. check_negative voltage current resistance = Inl e)"
  proof cases
    case V
    then show ?thesis by (simp add: check_negative_def py_lt_zero_def)
  next
    case I
    then show ?thesis by (simp add: check_negative_def py_lt_zero_def)
  next
    case R
    then show ?thesis by (simp add: check_negative_def py_lt_zero_def)
  qed
  with two show ?thesis
    by (auto simp: ohms_law_def check_count_def)
qed

theorem C10_no_branch_taken_witness:
  "count_provided [None, Some 5, Some 2] = 2 \<and>
   length (filter (\<lambda>param. param = None) [None, Some 5, Some (2::real)]) = 1 \<and>
   check_negative None (Some 5) (Some 2) = Inl TypeError \<and>
   ohms_law None (Some 5) (Some 2) = Inl TypeError"
proof -
  have two: "count_provided [None, Some 5, Some 2] = 2"
    by (simp add: count_provided_def)
  have chk: "check_negative None (Some 5) (Some 2) = Inl TypeError"
    by (simp add: check_negative_def py_lt_zero_def)
  show ?thesis
    using two chk C10_no_branch_taken [OF two] by auto
qed

end
